theory Spec2Isabelle
  imports Main
begin

section \<open>The Linear SDK plugin for graphql-codegen (packages/plugin-sdk/src/index.ts)\<close>

text \<open>
  The file exports two functions, \<open>plugin\<close> and \<open>validate\<close>. Both are asynchronous in
  the source; a rejected promise is modelled as \<open>Inl\<close> of the thrown error, a fulfilled
  one as \<open>Inr\<close> of its value. The calls to \<open>logger\<close> only write diagnostics and are not
  part of the model: they are taken not to throw. What the source computes to pass
  to them is part of the model where it can throw (line 39). The configuration is an
  object, as the host passes it.
\<close>

subsection \<open>Values of the configuration\<close>

text \<open>
  The configuration object comes from the host's configuration file, so at run time a
  field may hold any JavaScript value, whatever its TypeScript type says. The values
  the model distinguishes: \<open>undefined\<close> (also a missing field), \<open>null\<close>, booleans,
  integral numbers, strings and objects.
\<close>

datatype js_value =
    JUndefined
  | JNull
  | JBoolean bool
  | JNumber int
  | JString string
  | JObject

text \<open>JavaScript's \<open>typeof\<close> operator.\<close>

fun typeof :: "js_value \<Rightarrow> string" where
  "typeof JUndefined = ''undefined''"
| "typeof JNull = ''object''"
| "typeof (JBoolean b) = ''boolean''"
| "typeof (JNumber n) = ''number''"
| "typeof (JString s) = ''string''"
| "typeof JObject = ''object''"

text \<open>Conversion to boolean, as \<open>!value\<close> performs it: \<open>!v\<close> is \<open>\<not> truthy v\<close>.\<close>

fun truthy :: "js_value \<Rightarrow> bool" where
  "truthy JUndefined = False"
| "truthy JNull = False"
| "truthy (JBoolean b) = b"
| "truthy (JNumber n) = (n \<noteq> 0)"
| "truthy (JString s) = (s \<noteq> [])"
| "truthy JObject = True"

text \<open>
  The values of the enumeration \<open>DocumentMode\<close> of
  \<open>@graphql-codegen/visitor-plugin-common\<close>; the plugin compares with
  \<open>DocumentMode.string\<close> only.
\<close>

datatype DocumentMode =
    DocumentMode_graphQLTag
  | DocumentMode_documentNode
  | DocumentMode_documentNodeImportFragments
  | DocumentMode_external
  | DocumentMode_string

text \<open>
  \<open>RawSdkPluginConfig\<close>: the two fields the file reads. A \<open>documentMode\<close> that is not
  set is \<open>None\<close>.
\<close>

record RawSdkPluginConfig =
  documentFile :: js_value
  documentMode :: "DocumentMode option"

text \<open>
  What the code throws: a JavaScript \<open>Error\<close> with its message, or the \<open>TypeError\<close>
  of the run time for a method or property that a value does not have.
\<close>

datatype error = Error string | TypeError

subsection \<open>The extension of a path\<close>

text \<open>
  \<open>validate\<close> calls \<open>extname\<close> of Node's \<open>path\<close> module. The function is a library
  function, so \<open>validate\<close> below takes it as its first argument. For concrete inputs
  the POSIX variant of the library function is transcribed here: a scan of the path
  from its last character to its first, which stops at the first separator that
  follows a character of the last path component.
\<close>

record extname_state =
  startDot :: int
  startPart :: int
  endIdx :: int
  matchedSlash :: bool
  preDotState :: int

definition extname_init :: extname_state where
  "extname_init =
     \<lparr>startDot = - 1, startPart = 0, endIdx = - 1, matchedSlash = True, preDotState = 0\<rparr>"

text \<open>\<open>extname_loop path n st\<close> runs the iterations \<open>i = n - 1, ..., 0\<close> of the scan.\<close>

fun extname_loop :: "string \<Rightarrow> nat \<Rightarrow> extname_state \<Rightarrow> extname_state" where
  "extname_loop path 0 st = st"
| "extname_loop path (Suc i) st =
     (if path ! i = CHR ''/'' then
        (if \<not> matchedSlash st then st\<lparr>startPart := int i + 1\<rparr>
         else extname_loop path i st)
      else
        (let st1 = (if endIdx st = - 1
                    then st\<lparr>matchedSlash := False, endIdx := int i + 1\<rparr> else st);
             st2 = (if path ! i = CHR ''.'' then
                      (if startDot st1 = - 1 then st1\<lparr>startDot := int i\<rparr>
                       else if preDotState st1 \<noteq> 1 then st1\<lparr>preDotState := 1\<rparr>
                       else st1)
                    else if startDot st1 \<noteq> - 1 then st1\<lparr>preDotState := - 1\<rparr>
                    else st1)
         in extname_loop path i st2))"

definition extname :: "string \<Rightarrow> string" where
  "extname path =
     (let st = extname_loop path (length path) extname_init in
      if startDot st = - 1 \<or> endIdx st = - 1 \<or> preDotState st = 0
         \<or> (preDotState st = 1 \<and> startDot st = endIdx st - 1
              \<and> startDot st = startPart st + 1)
      then []
      else take (nat (endIdx st) - nat (startDot st)) (drop (nat (startDot st)) path))"

subsection \<open>validate\<close>

text \<open>The double quote character, which the messages contain.\<close>

definition dquote :: string where
  "dquote = [CHR 0x22]"

definition packageName :: string where
  "packageName = ''@linear/plugin-sdk''"

text \<open>\<open>prefix\<close> of the source: \<open>Plugin "${packageName}" config requires\<close>.\<close>

definition prefix_requires :: string where
  "prefix_requires = ''Plugin '' @ dquote @ packageName @ dquote @ '' config requires''"

definition extension_message :: "string \<Rightarrow> string" where
  "extension_message outputFile =
     prefix_requires @ '' output file extension to be '' @ dquote @ ''.ts'' @ dquote
       @ '' but is '' @ dquote @ outputFile @ dquote"

definition documentFile_message :: string where
  "documentFile_message =
     prefix_requires
       @ '' documentFile to be a string path to a document file generated by ''
       @ dquote @ ''typed-document-node'' @ dquote"

text \<open>
  \<open>validate\<close> (lines 100 to 119). It receives the schema and the documents as \<open>plugin\<close>
  does; \<open>ext\<close> is the library's \<open>extname\<close>. It returns nothing when the
  configuration passes.
\<close>

definition validate ::
  "(string \<Rightarrow> string) \<Rightarrow> 'schema \<Rightarrow> 'document list \<Rightarrow> RawSdkPluginConfig \<Rightarrow> string
     \<Rightarrow> error + unit" where
  "validate ext schema documents config outputFile =
     (if ext outputFile \<noteq> ''.ts'' then Inl (Error (extension_message outputFile))
      else if \<not> truthy (documentFile config) \<or> typeof (documentFile config) \<noteq> ''string''
      then Inl (Error documentFile_message)
      else Inr ())"

subsection \<open>Template strings\<close>

text \<open>
  A template string converts the value it interpolates to a string. The result is
  fixed by the language for \<open>undefined\<close>, \<open>null\<close>, a boolean and a string. For a number
  and for an object (an array prints its elements, another object what its own
  \<open>toString\<close> returns, and that method may throw) the conversion \<open>ToString\<close> of the
  run time is a parameter of the model, among the collaborators below.
\<close>

fun template :: "(js_value \<Rightarrow> error + string) \<Rightarrow> js_value \<Rightarrow> error + string" where
  "template toString JUndefined = Inr ''undefined''"
| "template toString JNull = Inr ''null''"
| "template toString (JBoolean b) = Inr (if b then ''true'' else ''false'')"
| "template toString (JNumber n) = toString (JNumber n)"
| "template toString (JString s) = Inr s"
| "template toString JObject = toString JObject"

subsection \<open>plugin\<close>

text \<open>
  What the traversal with the model visitor returns. The source casts it to an array
  of models without a check, so at run time it is an array whose elements are models
  or \<open>null\<close> or \<open>undefined\<close> (\<open>None\<close>), or a value that is no array.
\<close>

datatype 'm visited = NotArray | ModelArray "'m option list"

text \<open>
  Line 39: \<open>models.map(model => model.name)\<close>, evaluated for the log inside the
  \<open>try\<close>. It throws a \<open>TypeError\<close> when \<open>models\<close> is no array and when an element is
  \<open>null\<close> or \<open>undefined\<close>; the names themselves are only logged.
\<close>

fun model_names :: "'m visited \<Rightarrow> error + unit" where
  "model_names NotArray = Inl TypeError"
| "model_names (ModelArray ms) = (if None \<in> set ms then Inl TypeError else Inr ())"

text \<open>
  \<open>PluginContext\<close> of \<open>@linear/plugin-common\<close>: the field \<open>fragments\<close>, which \<open>plugin\<close>
  sets, and everything else the context visitor collected, kept as one field.
  \<open>SdkPluginContext\<close> adds the models, as the traversal returned them, and the
  definitions of the operations.
\<close>

record ('c, 'f) PluginContext =
  collected :: 'c
  fragments :: "'f list"

record ('c, 'f, 'm, 'k) SdkPluginContext = "('c, 'f) PluginContext" +
  models :: "'m visited"
  sdkDefinitions :: 'k

text \<open>
  What \<open>plugin\<close> returns to the host. The array \<open>prepend\<close> is built from strings and
  \<open>undefined\<close> and then filtered, so its elements are optional strings.
\<close>

record PluginOutput =
  prepend :: "string option list"
  content :: string

text \<open>
  The functions and the constant that \<open>plugin\<close> imports and that are not part of the
  file: the parser and printer of the schema (\<open>parse (printSchema schema)\<close>), the two
  visitors with the traversal that runs them, \<open>getSdkDefinitions\<close>, the three printers,
  the helpers \<open>nonNullable\<close> and \<open>filterJoin\<close>, and the constant
  \<open>c.NAMESPACE_DOCUMENT\<close>; with them \<open>ToString\<close>, the conversion of the run time that
  a template string applies to a number or an object. Each function that may throw
  returns a sum; the two helpers are taken not to throw. The type variables stand
  for the schema, its syntax tree, a document file, what the context visitor
  collects, a fragment, a model and the definitions.
\<close>

record ('s, 'a, 'd, 'c, 'f, 'm, 'k) collaborators =
  parse_printSchema :: "'s \<Rightarrow> error + 'a"
  ContextVisitor :: "'s \<Rightarrow> RawSdkPluginConfig \<Rightarrow> 'a \<Rightarrow> error + ('c, 'f) PluginContext"
  ModelVisitor :: "('c, 'f) PluginContext \<Rightarrow> 'a \<Rightarrow> error + 'm visited"
  getSdkDefinitions :: "('c, 'f) PluginContext \<Rightarrow> 'd list \<Rightarrow> 'm visited \<Rightarrow> error + 'k"
  printSdkModels :: "('c, 'f, 'm, 'k) SdkPluginContext \<Rightarrow> error + string"
  printSdkClasses :: "('c, 'f, 'm, 'k) SdkPluginContext \<Rightarrow> error + string"
  printRequesterType :: "RawSdkPluginConfig \<Rightarrow> error + string list"
  nonNullable :: "string option \<Rightarrow> bool"
  filterJoin :: "string list \<Rightarrow> string \<Rightarrow> string"
  NAMESPACE_DOCUMENT :: string
  ToString :: "js_value \<Rightarrow> error + string"

text \<open>
  Lines 23 to 33: the syntax tree of the schema and the context. The context is the
  visitor's, with \<open>fragments\<close> replaced by the empty array.
\<close>

definition plugin_context ::
  "('s, 'a, 'd, 'c, 'f, 'm, 'k) collaborators \<Rightarrow> 's \<Rightarrow> RawSdkPluginConfig
     \<Rightarrow> error + ('a \<times> ('c, 'f) PluginContext)" where
  "plugin_context D schema config =
     (case parse_printSchema D schema of
        Inl e \<Rightarrow> Inl e
      | Inr ast \<Rightarrow>
          (case ContextVisitor D schema config ast of
             Inl e \<Rightarrow> Inl e
           | Inr visited \<Rightarrow> Inr (ast, visited\<lparr>fragments := []\<rparr>)))"

text \<open>Lines 45 to 49: \<open>{ ...context, models, sdkDefinitions }\<close>.\<close>

definition sdkContext ::
  "('c, 'f) PluginContext \<Rightarrow> 'm visited \<Rightarrow> 'k \<Rightarrow> ('c, 'f, 'm, 'k) SdkPluginContext" where
  "sdkContext context ms defs =
     \<lparr>collected = collected context, fragments = fragments context,
      models = ms, sdkDefinitions = defs\<rparr>"

text \<open>The single quote character, and the three lines of \<open>prepend\<close>.\<close>

definition squote :: string where
  "squote = [CHR 0x27]"

definition eslint_disable :: string where
  "eslint_disable = ''/* eslint-disable @typescript-eslint/no-unused-vars */''"

definition import_DocumentNode :: string where
  "import_DocumentNode = ''import { DocumentNode } from '' @ squote @ ''graphql'' @ squote"

definition import_ResultOf :: string where
  "import_ResultOf =
     ''import { ResultOf } from '' @ squote @ ''@graphql-typed-document-node/core'' @ squote"

text \<open>
  Lines 67 to 90: the object that \<open>plugin\<close> returns. \<open>file\<close> is the text that the two
  template strings put for \<open>config.documentFile\<close>, and \<open>requester\<close> the lines of
  \<open>printRequesterType\<close>.
\<close>

definition plugin_output ::
  "('s, 'a, 'd, 'c, 'f, 'm, 'k) collaborators \<Rightarrow> RawSdkPluginConfig \<Rightarrow> string
     \<Rightarrow> string list \<Rightarrow> string \<Rightarrow> string \<Rightarrow> PluginOutput" where
  "plugin_output D config file requester printedModels printedOperations =
     \<lparr>prepend = filter (nonNullable D)
        [Some eslint_disable,
         if documentMode config \<noteq> Some DocumentMode_string
         then Some import_DocumentNode else None,
         Some import_ResultOf],
      content = filterJoin D
        ([''import * as '' @ NAMESPACE_DOCUMENT D @ '' from '' @ squote @ file @ squote,
          ''export * from '' @ squote @ file @ squote @ [CHR 0x0A]]
         @ requester @ [printedModels, printedOperations])
        [CHR 0x0A]\<rparr>"

text \<open>
  \<open>plugin\<close> (lines 17 to 95). The whole body stands in one \<open>try\<close> whose handler logs
  the error and throws it again, so an error of any stage is the error of \<open>plugin\<close>.
  The stages run in the order of the source: in the returned object the template
  strings are evaluated before the call of \<open>printRequesterType\<close>.
\<close>

definition plugin ::
  "('s, 'a, 'd, 'c, 'f, 'm, 'k) collaborators \<Rightarrow> 's \<Rightarrow> 'd list \<Rightarrow> RawSdkPluginConfig
     \<Rightarrow> error + PluginOutput" where
  "plugin D schema documents config =
     (case plugin_context D schema config of
        Inl e \<Rightarrow> Inl e
      | Inr (ast, context) \<Rightarrow>
     (case ModelVisitor D context ast of
        Inl e \<Rightarrow> Inl e
      | Inr ms \<Rightarrow>
     (case model_names ms of
        Inl e \<Rightarrow> Inl e
      | Inr names \<Rightarrow>
     (case getSdkDefinitions D context documents ms of
        Inl e \<Rightarrow> Inl e
      | Inr defs \<Rightarrow>
     (case printSdkModels D (sdkContext context ms defs) of
        Inl e \<Rightarrow> Inl e
      | Inr printedModels \<Rightarrow>
     (case printSdkClasses D (sdkContext context ms defs) of
        Inl e \<Rightarrow> Inl e
      | Inr printedOperations \<Rightarrow>
     (case template (ToString D) (documentFile config) of
        Inl e \<Rightarrow> Inl e
      | Inr file \<Rightarrow>
     (case printRequesterType D config of
        Inl e \<Rightarrow> Inl e
      | Inr requester \<Rightarrow>
          Inr (plugin_output D config file requester printedModels
                 printedOperations)))))))))"

subsection \<open>Documents and their fragments\<close>

text \<open>
  A document file as the host passes it (\<open>Types.DocumentFile\<close>): where it was loaded
  from and the definitions of its document, each an operation or a fragment with its
  name and its selection set.
\<close>

datatype DefinitionNode =
    OperationDefinition string string
  | FragmentDefinition string string

record DocumentFile =
  location :: string
  definitions :: "DefinitionNode list"

text \<open>
  The fragments that a list of document files defines, each with its selection set,
  in the order of the documents: what a registry of fragments filled from the input
  holds.
\<close>

fun fragment_of :: "DefinitionNode \<Rightarrow> (string \<times> string) list" where
  "fragment_of (FragmentDefinition name selection) = [(name, selection)]"
| "fragment_of (OperationDefinition name selection) = []"

definition document_fragments :: "DocumentFile list \<Rightarrow> (string \<times> string) list" where
  "document_fragments documents =
     concat (map (\<lambda>d. concat (map fragment_of (definitions d))) documents)"

subsection \<open>A concrete run\<close>

text \<open>
  One instance of the imported functions, on which the theorems below are evaluated:
  the schema is its text, its syntax tree the list of its type names, a model the
  name of its type, and the definitions the locations of the documents. The printers
  join what they are given. \<open>filterJoin\<close> drops the empty strings and joins the rest.
\<close>

fun join :: "string \<Rightarrow> string list \<Rightarrow> string" where
  "join sep [] = []"
| "join sep [x] = x"
| "join sep (x # y # ys) = x @ sep @ join sep (y # ys)"

fun model_list :: "'m visited \<Rightarrow> 'm list" where
  "model_list NotArray = []"
| "model_list (ModelArray ms) = concat (map (\<lambda>m. case m of None \<Rightarrow> [] | Some x \<Rightarrow> [x]) ms)"

definition example_collaborators ::
  "(string, string list, DocumentFile, string list, string \<times> string, string, string list)
     collaborators" where
  "example_collaborators =
     \<lparr>parse_printSchema = (\<lambda>schema. Inr [''Issue'', ''Comment'']),
      ContextVisitor = (\<lambda>schema config ast. Inr \<lparr>collected = ast, fragments = []\<rparr>),
      ModelVisitor = (\<lambda>context ast. Inr (ModelArray (map Some (collected context)))),
      getSdkDefinitions = (\<lambda>context documents ms. Inr (map location documents)),
      printSdkModels = (\<lambda>sdk. Inr (join '', '' (model_list (models sdk)))),
      printSdkClasses = (\<lambda>sdk. Inr (join '', '' (sdkDefinitions sdk))),
      printRequesterType = (\<lambda>config. Inr [''export type LinearRequester = unknown'']),
      nonNullable = (\<lambda>x. x \<noteq> None),
      filterJoin = (\<lambda>xs sep. join sep (filter (\<lambda>x. x \<noteq> []) xs)),
      NAMESPACE_DOCUMENT = ''D'',
      ToString = (\<lambda>v. Inr ''[object Object]'')\<rparr>"

definition example_documents :: "DocumentFile list" where
  "example_documents =
     [\<lparr>location = ''issue.graphql'',
       definitions =
         [FragmentDefinition ''IssueFragment'' ''{ id title }'',
          OperationDefinition ''issue'' ''{ issue(id: $id) { ...IssueFragment } }'']\<rparr>]"

definition example_config :: RawSdkPluginConfig where
  "example_config =
     \<lparr>documentFile = JString ''./_generated_documents'',
      documentMode = Some DocumentMode_documentNode\<rparr>"

text \<open>
  The same run with a \<open>getSdkDefinitions\<close> that throws, and with a model visitor
  that leaves \<open>undefined\<close> in the array of models.
\<close>

definition failing_collaborators ::
  "(string, string list, DocumentFile, string list, string \<times> string, string, string list)
     collaborators" where
  "failing_collaborators =
     example_collaborators
       \<lparr>getSdkDefinitions := (\<lambda>context documents ms. Inl (Error ''no operations''))\<rparr>"

definition undefined_model_collaborators ::
  "(string, string list, DocumentFile, string list, string \<times> string, string, string list)
     collaborators" where
  "undefined_model_collaborators =
     example_collaborators
       \<lparr>ModelVisitor := (\<lambda>context ast. Inr (ModelArray [Some ''Issue'', None]))\<rparr>"

section \<open>The requester and the chaining of operations, from the specification\<close>

subsection \<open>The requester contract\<close>

text \<open>
  Modelled from the spec: \<open>printRequesterType\<close> of \<open>./requester\<close>, which \<open>plugin\<close>
  imports, is not among the sources. Section 4.4 of the specification describes it as
  a choice between two variants by the configured document mode, the string-document
  mode and the typed-document-node mode, which differ in the static type of the
  document that the requester accepts.
\<close>

datatype RequesterDocument = StringDocument | TypedDocumentNode

definition RequesterContract :: "RawSdkPluginConfig \<Rightarrow> RequesterDocument" where
  "RequesterContract config =
     (if documentMode config = Some DocumentMode_string then StringDocument
      else TypedDocumentNode)"

subsection \<open>The data model of chain resolution\<close>

text \<open>
  Modelled from the spec: \<open>getSdkDefinitions\<close> of \<open>./definitions\<close>, which \<open>plugin\<close>
  imports, is not among the sources. The types follow section 3 of the specification.
  A declared variable of an operation has a name, a type, is required or optional,
  and is an identifying argument or not; a type is written as in the schema
  (\<open>ID!\<close>, \<open>String!\<close>). A model names the fields that were selected, with their
  types, and the operation or fragment it was derived from.
\<close>

record Variable =
  v_name :: string
  v_type :: string
  v_required :: bool
  v_identifying :: bool

record Field =
  f_name :: string
  f_type :: string

record SdkModel =
  m_name :: string
  m_fields :: "Field list"
  m_source :: string

datatype OperationKind = Query | Mutation | Subscription

record OperationDocument =
  o_name :: string
  o_kind :: OperationKind
  o_variables :: "Variable list"
  o_result :: SdkModel

text \<open>
  A chain node: the name of the operation, the owning path (the names of the models
  of its ancestors, from the root), the arguments a caller must supply, the model of
  the result, and the children in order.
\<close>

datatype SdkDefinition =
  SdkDefinition
    (d_operation: string)
    (d_path: "string list")
    (d_arguments: "Variable list")
    (d_model: SdkModel)
    (d_children: "SdkDefinition list")

subsection \<open>Steps 1 and 2: classification and the choice of the parent\<close>

text \<open>
  Modelled from the spec: step 1 of section 4.3. A variable appears among the selected
  fields of a model when a field has its name and its type. An operation is a
  candidate child of a model when every required variable of the operation that is
  not independently suppliable appears among the model's selected fields; the
  variables that are not independently suppliable are taken to be the identifying
  ones of section 3.
\<close>

definition appears_in :: "SdkModel \<Rightarrow> Variable \<Rightarrow> bool" where
  "appears_in M v = list_ex (\<lambda>f. f_name f = v_name v \<and> f_type f = v_type v) (m_fields M)"

definition candidate :: "OperationDocument \<Rightarrow> SdkModel \<Rightarrow> bool" where
  "candidate operation M =
     list_all (\<lambda>v. v_required v \<and> v_identifying v \<longrightarrow> appears_in M v)
       (o_variables operation)"

text \<open>
  Modelled from the spec: step 2 of section 4.3. An operation is attached under the
  most specific model it is a candidate child of, the one with the largest set of
  matching identifying fields; of two models with sets of the same size the one
  declared first wins. The models are listed in the order of their declaration. An
  operation that matches no model has no parent and is a root. The specification
  does not say which node of the tree stands for a model that several operations
  return, nor where an operation goes that is a candidate child of the model it
  returns itself; the definitions stop at the choice of the parent model and at the
  lists of the children of a model and of the roots.
\<close>

definition matching :: "OperationDocument \<Rightarrow> SdkModel \<Rightarrow> nat" where
  "matching operation M =
     length (filter (\<lambda>v. v_identifying v \<and> appears_in M v) (o_variables operation))"

fun most_specific :: "OperationDocument \<Rightarrow> SdkModel list \<Rightarrow> SdkModel option" where
  "most_specific operation [] = None"
| "most_specific operation (M # Ms) =
     (if candidate operation M then
        (case most_specific operation Ms of
           None \<Rightarrow> Some M
         | Some N \<Rightarrow> if matching operation M < matching operation N then Some N else Some M)
      else most_specific operation Ms)"

definition chain_parent :: "SdkModel list \<Rightarrow> OperationDocument \<Rightarrow> SdkModel option" where
  "chain_parent ms operation = most_specific operation ms"

definition chain_children ::
  "SdkModel list \<Rightarrow> OperationDocument list \<Rightarrow> SdkModel \<Rightarrow> OperationDocument list" where
  "chain_children ms documents M =
     filter (\<lambda>operation. chain_parent ms operation = Some M) documents"

definition chain_roots :: "SdkModel list \<Rightarrow> OperationDocument list \<Rightarrow> OperationDocument list" where
  "chain_roots ms documents = filter (\<lambda>operation. chain_parent ms operation = None) documents"

subsection \<open>Step 4: argument elision\<close>

text \<open>
  Modelled from the spec: step 4 of section 4.3 and the chaining contract of section 3.
  An argument is inherited from the ancestor chain when it is a required identifying
  argument that appears among the selected fields of the result model of an ancestor.
  Elision walks the tree with the models of the ancestors of the node at hand and
  leaves each node the arguments that are not inherited.
\<close>

definition inherited :: "SdkModel list \<Rightarrow> Variable \<Rightarrow> bool" where
  "inherited ancestors v =
     (v_required v \<and> v_identifying v \<and> list_ex (\<lambda>M. appears_in M v) ancestors)"

fun elide :: "SdkModel list \<Rightarrow> SdkDefinition \<Rightarrow> SdkDefinition" where
  "elide ancestors (SdkDefinition name path arguments model children) =
     SdkDefinition name path
       (filter (\<lambda>v. \<not> inherited ancestors v) arguments)
       model
       (map (elide (ancestors @ [model])) children)"

definition argument_elision :: "SdkDefinition list \<Rightarrow> SdkDefinition list" where
  "argument_elision forest = map (elide []) forest"

text \<open>
  The scenario of section 8 of the specification: the models of \<open>Issue\<close> and
  \<open>Comment\<close>, the operations \<open>issue\<close> and \<open>issueComments\<close>, and an operation whose
  \<open>id\<close> is a \<open>String!\<close>.
\<close>

definition var_id :: "string \<Rightarrow> Variable" where
  "var_id ty = \<lparr>v_name = ''id'', v_type = ty, v_required = True, v_identifying = True\<rparr>"

definition model_Issue :: SdkModel where
  "model_Issue =
     \<lparr>m_name = ''Issue'',
      m_fields = [\<lparr>f_name = ''id'', f_type = ''ID!''\<rparr>,
                  \<lparr>f_name = ''title'', f_type = ''String!''\<rparr>,
                  \<lparr>f_name = ''comments'', f_type = ''[Comment!]!''\<rparr>],
      m_source = ''issue''\<rparr>"

definition model_Comment :: SdkModel where
  "model_Comment =
     \<lparr>m_name = ''Comment'',
      m_fields = [\<lparr>f_name = ''id'', f_type = ''ID!''\<rparr>,
                  \<lparr>f_name = ''body'', f_type = ''String!''\<rparr>],
      m_source = ''issueComments''\<rparr>"

definition op_issueComments :: OperationDocument where
  "op_issueComments =
     \<lparr>o_name = ''issueComments'', o_kind = Query, o_variables = [var_id ''ID!''],
      o_result = model_Comment\<rparr>"

definition op_byExternalId :: OperationDocument where
  "op_byExternalId =
     \<lparr>o_name = ''issueByExternalId'', o_kind = Query, o_variables = [var_id ''String!''],
      o_result = model_Issue\<rparr>"

definition tree_issue :: SdkDefinition where
  "tree_issue =
     SdkDefinition ''issue'' [] [var_id ''ID!''] model_Issue
       [SdkDefinition ''issueComments'' [''Issue'']
          [var_id ''ID!'',
           \<lparr>v_name = ''first'', v_type = ''Int'', v_required = False, v_identifying = False\<rparr>]
          model_Comment []]"

section \<open>Properties of validate\<close>

lemma truthy_string_iff:
  "(truthy v \<and> typeof v = ''string'') = (\<exists>s. v = JString s \<and> s \<noteq> [])"
  by (cases v) simp_all

text \<open>
  Claim C7. \<open>validate\<close> throws if and only if the extension of the output file is not
  \<open>.ts\<close> or \<open>config.documentFile\<close> is not a non-empty string (it is missing, empty or
  of another type). A wrong extension is reported with the message that names the
  output file extension, and otherwise a wrong \<open>documentFile\<close> with the message that
  names \<open>documentFile\<close>; when both conditions hold \<open>validate\<close> returns without error.
\<close>

theorem validate_throws_iff:
  "((\<exists>e. validate ext schema documents config outputFile = Inl e)
      \<longleftrightarrow> (ext outputFile \<noteq> ''.ts''
           \<or> \<not> (\<exists>s. documentFile config = JString s \<and> s \<noteq> [])))
   \<and> (ext outputFile \<noteq> ''.ts'' \<longrightarrow>
        validate ext schema documents config outputFile
          = Inl (Error (extension_message outputFile)))
   \<and> (ext outputFile = ''.ts'' \<and> \<not> (\<exists>s. documentFile config = JString s \<and> s \<noteq> []) \<longrightarrow>
        validate ext schema documents config outputFile = Inl (Error documentFile_message))
   \<and> (ext outputFile = ''.ts'' \<and> (\<exists>s. documentFile config = JString s \<and> s \<noteq> []) \<longrightarrow>
        validate ext schema documents config outputFile = Inr ())"
proof -
  have doc: "(\<not> truthy (documentFile config) \<or> typeof (documentFile config) \<noteq> ''string'')
             = (\<not> (\<exists>s. documentFile config = JString s \<and> s \<noteq> []))"
    using truthy_string_iff [of "documentFile config"] by blast
  show ?thesis
    unfolding validate_def doc by simp
qed

lemma extname_generated_sdk_ts: "extname ''src/_generated_sdk.ts'' = ''.ts''"
  by code_simp

lemma extname_generated_sdk_js: "extname ''src/_generated_sdk.js'' \<noteq> ''.ts''"
  by code_simp

theorem validate_throws_iff_witness:
  "validate extname () ([] :: unit list) example_config ''src/_generated_sdk.ts'' = Inr ()
   \<and> validate extname () ([] :: unit list) example_config ''src/_generated_sdk.js''
       = Inl (Error (''Plugin '' @ dquote @ ''@linear/plugin-sdk'' @ dquote
           @ '' config requires output file extension to be '' @ dquote @ ''.ts'' @ dquote
           @ '' but is '' @ dquote @ ''src/_generated_sdk.js'' @ dquote))
   \<and> validate extname () ([] :: unit list)
         \<lparr>documentFile = JString [], documentMode = None\<rparr> ''src/_generated_sdk.ts''
       = Inl (Error (''Plugin '' @ dquote @ ''@linear/plugin-sdk'' @ dquote
           @ '' config requires documentFile to be a string path to a document file''
           @ '' generated by '' @ dquote @ ''typed-document-node'' @ dquote))
   \<and> (\<exists>e. validate extname () ([] :: unit list)
         \<lparr>documentFile = JUndefined, documentMode = None\<rparr> ''src/_generated_sdk.ts''
       = Inl e)"
proof -
  note ts = extname_generated_sdk_ts and js = extname_generated_sdk_js
  have 1: "validate extname () ([] :: unit list) example_config ''src/_generated_sdk.ts''
             = Inr ()"
    using validate_throws_iff
      [of extname "()" "[] :: unit list" example_config "''src/_generated_sdk.ts''"] ts
    by (simp add: example_config_def)
  have 2: "validate extname () ([] :: unit list) example_config ''src/_generated_sdk.js''
             = Inl (Error (extension_message ''src/_generated_sdk.js''))"
    using validate_throws_iff
      [of extname "()" "[] :: unit list" example_config "''src/_generated_sdk.js''"] js
    by simp
  have 3: "validate extname () ([] :: unit list)
             \<lparr>documentFile = JString [], documentMode = None\<rparr> ''src/_generated_sdk.ts''
             = Inl (Error documentFile_message)"
    using validate_throws_iff
      [of extname "()" "[] :: unit list" "\<lparr>documentFile = JString [], documentMode = None\<rparr>"
        "''src/_generated_sdk.ts''"] ts
    by simp
  have 4: "\<exists>e. validate extname () ([] :: unit list)
             \<lparr>documentFile = JUndefined, documentMode = None\<rparr> ''src/_generated_sdk.ts''
             = Inl e"
    using validate_throws_iff
      [of extname "()" "[] :: unit list" "\<lparr>documentFile = JUndefined, documentMode = None\<rparr>"
        "''src/_generated_sdk.ts''"]
    by simp
  show ?thesis
    using 1 2 3 4
    by (simp add: extension_message_def documentFile_message_def prefix_requires_def
        packageName_def)
qed

text \<open>
  Claim C10. The outcome of \<open>validate\<close> does not depend on the schema or on the
  documents: for a fixed output file and configuration it accepts or rejects, with
  the same error, whatever schema and document list it is given.
\<close>

theorem validate_ignores_schema_and_documents:
  "validate ext schema documents config outputFile
     = validate ext schema' documents' config outputFile"
  by (simp add: validate_def)

theorem validate_ignores_schema_and_documents_witness:
  "validate extname ''type Issue { id: ID! }'' example_documents example_config
       ''src/_generated_sdk.ts''
     = validate extname ''type Query'' [] example_config ''src/_generated_sdk.ts''
   \<and> validate extname ''type Query'' ([] :: DocumentFile list) example_config
       ''src/_generated_sdk.ts'' = Inr ()"
proof -
  have "validate extname ''type Query'' ([] :: DocumentFile list) example_config
          ''src/_generated_sdk.ts'' = Inr ()"
    using extname_generated_sdk_ts by (simp add: validate_def example_config_def)
  then show ?thesis
    using validate_ignores_schema_and_documents
      [of extname "''type Issue { id: ID! }''" example_documents example_config
        "''src/_generated_sdk.ts''" "''type Query''" "[]"]
    by simp
qed

section \<open>Properties of plugin\<close>

lemma plugin_Inr_iff:
  "(plugin D schema documents config = Inr out) =
     (\<exists>ast visited ms defs printedModels printedOperations file requester.
         parse_printSchema D schema = Inr ast
       \<and> ContextVisitor D schema config ast = Inr visited
       \<and> ModelVisitor D (visited\<lparr>fragments := []\<rparr>) ast = Inr ms
       \<and> model_names ms = Inr ()
       \<and> getSdkDefinitions D (visited\<lparr>fragments := []\<rparr>) documents ms
           = Inr defs
       \<and> printSdkModels D (sdkContext (visited\<lparr>fragments := []\<rparr>) ms defs)
           = Inr printedModels
       \<and> printSdkClasses D (sdkContext (visited\<lparr>fragments := []\<rparr>) ms defs)
           = Inr printedOperations
       \<and> template (ToString D) (documentFile config) = Inr file
       \<and> printRequesterType D config = Inr requester
       \<and> out = plugin_output D config file requester printedModels printedOperations)"
  unfolding plugin_def plugin_context_def
  by (auto split: sum.splits)

lemma plugin_Inl_iff:
  "(plugin D schema documents config = Inl e) =
     (
        parse_printSchema D schema = Inl e
        \<or> (\<exists>ast. parse_printSchema D schema = Inr ast \<and>
           (
          ContextVisitor D schema config ast = Inl e
          \<or> (\<exists>visited. ContextVisitor D schema config ast = Inr visited \<and>
             (
            ModelVisitor D (visited\<lparr>fragments := []\<rparr>) ast = Inl e
            \<or> (\<exists>ms. ModelVisitor D (visited\<lparr>fragments := []\<rparr>) ast
                = Inr ms \<and>
               (
              model_names ms = Inl e
              \<or> (model_names ms = Inr () \<and>
                 (
                getSdkDefinitions D (visited\<lparr>fragments := []\<rparr>) documents ms
                    = Inl e
                \<or> (\<exists>defs.
                       getSdkDefinitions D (visited\<lparr>fragments := []\<rparr>) documents ms
                         = Inr defs \<and>
                   (
                  printSdkModels D (sdkContext (visited\<lparr>fragments := []\<rparr>) ms defs)
                      = Inl e
                  \<or> (\<exists>printedModels.
                         printSdkModels D (sdkContext (visited\<lparr>fragments := []\<rparr>) ms defs)
                           = Inr printedModels \<and>
                     (
                    printSdkClasses D (sdkContext (visited\<lparr>fragments := []\<rparr>) ms defs)
                        = Inl e
                    \<or> (\<exists>printedOperations.
                           printSdkClasses D (sdkContext (visited\<lparr>fragments := []\<rparr>) ms defs)
                             = Inr printedOperations \<and>
                       (
                      template (ToString D) (documentFile config) = Inl e
                      \<or> (\<exists>file. template (ToString D) (documentFile config)
                          = Inr file \<and>
                         (
                        printRequesterType D config = Inl e)))))))))))))))))"
  unfolding plugin_def plugin_context_def
  by (auto split: sum.splits)

text \<open>
  Claim C6. A run of \<open>plugin\<close> is all or nothing. It returns an output exactly when
  every stage succeeds: the context build, the extraction of the models and the
  reading of their names, the resolution of the definitions, the printers and the
  conversion of \<open>config.documentFile\<close> for the template strings. The output is then
  the fully assembled one: \<open>prepend\<close> holds the eslint line, the import of
  \<open>DocumentNode\<close> unless the mode is the string mode, and the import of \<open>ResultOf\<close>, as
  \<open>nonNullable\<close> keeps them; \<open>content\<close> is what \<open>filterJoin\<close> makes, with a line feed
  as separator, of the import and the export of the document file, the lines of the
  requester, the printed models and the printed operations. The run fails with the
  error \<open>e\<close> exactly when some stage throws \<open>e\<close> after the stages before it succeeded:
  the error of the first failing stage is the single error the host receives, and
  there is no output beside it.
\<close>

theorem plugin_all_or_nothing:
  "(plugin D schema documents config = Inr out \<longleftrightarrow>
      (\<exists>ast visited ms defs printedModels printedOperations file requester.
         parse_printSchema D schema = Inr ast
       \<and> ContextVisitor D schema config ast = Inr visited
       \<and> ModelVisitor D (visited\<lparr>fragments := []\<rparr>) ast = Inr ms
       \<and> model_names ms = Inr ()
       \<and> getSdkDefinitions D (visited\<lparr>fragments := []\<rparr>) documents ms
           = Inr defs
       \<and> printSdkModels D (sdkContext (visited\<lparr>fragments := []\<rparr>) ms defs)
           = Inr printedModels
       \<and> printSdkClasses D (sdkContext (visited\<lparr>fragments := []\<rparr>) ms defs)
           = Inr printedOperations
       \<and> template (ToString D) (documentFile config) = Inr file
       \<and> printRequesterType D config = Inr requester
       \<and> out =
           \<lparr>prepend = filter (nonNullable D)
              [Some ''/* eslint-disable @typescript-eslint/no-unused-vars */'',
               if documentMode config \<noteq> Some DocumentMode_string
               then Some (''import { DocumentNode } from '' @ [CHR 0x27] @ ''graphql''
                            @ [CHR 0x27])
               else None,
               Some (''import { ResultOf } from '' @ [CHR 0x27]
                       @ ''@graphql-typed-document-node/core'' @ [CHR 0x27])],
            content = filterJoin D
              ([''import * as '' @ NAMESPACE_DOCUMENT D @ '' from '' @ [CHR 0x27] @ file
                  @ [CHR 0x27],
                ''export * from '' @ [CHR 0x27] @ file @ [CHR 0x27] @ [CHR 0x0A]]
               @ requester @ [printedModels, printedOperations])
              [CHR 0x0A]\<rparr>))
   \<and> (plugin D schema documents config = Inl e \<longleftrightarrow>
       (
        parse_printSchema D schema = Inl e
        \<or> (\<exists>ast. parse_printSchema D schema = Inr ast \<and>
           (
          ContextVisitor D schema config ast = Inl e
          \<or> (\<exists>visited. ContextVisitor D schema config ast = Inr visited \<and>
             (
            ModelVisitor D (visited\<lparr>fragments := []\<rparr>) ast = Inl e
            \<or> (\<exists>ms. ModelVisitor D (visited\<lparr>fragments := []\<rparr>) ast
                = Inr ms \<and>
               (
              model_names ms = Inl e
              \<or> (model_names ms = Inr () \<and>
                 (
                getSdkDefinitions D (visited\<lparr>fragments := []\<rparr>) documents ms
                    = Inl e
                \<or> (\<exists>defs.
                       getSdkDefinitions D (visited\<lparr>fragments := []\<rparr>) documents ms
                         = Inr defs \<and>
                   (
                  printSdkModels D (sdkContext (visited\<lparr>fragments := []\<rparr>) ms defs)
                      = Inl e
                  \<or> (\<exists>printedModels.
                         printSdkModels D (sdkContext (visited\<lparr>fragments := []\<rparr>) ms defs)
                           = Inr printedModels \<and>
                     (
                    printSdkClasses D (sdkContext (visited\<lparr>fragments := []\<rparr>) ms defs)
                        = Inl e
                    \<or> (\<exists>printedOperations.
                           printSdkClasses D (sdkContext (visited\<lparr>fragments := []\<rparr>) ms defs)
                             = Inr printedOperations \<and>
                       (
                      template (ToString D) (documentFile config) = Inl e
                      \<or> (\<exists>file. template (ToString D) (documentFile config)
                          = Inr file \<and>
                         (
                        printRequesterType D config = Inl e))))))))))))))))))
   \<and> (model_names ms = Inr () \<longleftrightarrow> (\<exists>xs. ms = ModelArray (map Some xs)))"
proof -
  have names: "(model_names ms = Inr ()) = (\<exists>xs. ms = ModelArray (map Some xs))"
  proof (cases ms)
    case NotArray
    then show ?thesis by simp
  next
    case (ModelArray ys)
    have "(None \<notin> set ys) = (\<exists>xs. ys = map Some xs)"
    proof
      assume "None \<notin> set ys"
      then have "ys = map Some (map the ys)"
        by (induction ys) auto
      then show "\<exists>xs. ys = map Some xs" ..
    next
      assume "\<exists>xs. ys = map Some xs"
      then show "None \<notin> set ys" by auto
    qed
    with ModelArray show ?thesis by auto
  qed
  have assembled:
    "plugin_output D config path requester printedModels printedOperations =
       \<lparr>prepend = filter (nonNullable D)
          [Some ''/* eslint-disable @typescript-eslint/no-unused-vars */'',
           if documentMode config \<noteq> Some DocumentMode_string
           then Some (''import { DocumentNode } from '' @ [CHR 0x27] @ ''graphql''
                        @ [CHR 0x27])
           else None,
           Some (''import { ResultOf } from '' @ [CHR 0x27]
                   @ ''@graphql-typed-document-node/core'' @ [CHR 0x27])],
        content = filterJoin D
          ([''import * as '' @ NAMESPACE_DOCUMENT D @ '' from '' @ [CHR 0x27] @ path
              @ [CHR 0x27],
            ''export * from '' @ [CHR 0x27] @ path @ [CHR 0x27] @ [CHR 0x0A]]
           @ requester @ [printedModels, printedOperations])
          [CHR 0x0A]\<rparr>"
    for path requester printedModels printedOperations
    unfolding plugin_output_def eslint_disable_def import_DocumentNode_def
      import_ResultOf_def squote_def
    by (rule refl)
  show ?thesis
    unfolding plugin_Inr_iff plugin_Inl_iff names assembled
    by (intro conjI refl)
qed

theorem plugin_all_or_nothing_witness:
  "plugin example_collaborators ''type Issue'' example_documents example_config
     = Inr \<lparr>prepend =
              [Some ''/* eslint-disable @typescript-eslint/no-unused-vars */'',
               Some (''import { DocumentNode } from '' @ [CHR 0x27] @ ''graphql''
                       @ [CHR 0x27]),
               Some (''import { ResultOf } from '' @ [CHR 0x27]
                       @ ''@graphql-typed-document-node/core'' @ [CHR 0x27])],
            content =
              ''import * as D from '' @ [CHR 0x27] @ ''./_generated_documents''
                @ [CHR 0x27, CHR 0x0A]
              @ ''export * from '' @ [CHR 0x27] @ ''./_generated_documents''
                @ [CHR 0x27, CHR 0x0A, CHR 0x0A]
              @ ''export type LinearRequester = unknown'' @ [CHR 0x0A]
              @ ''Issue, Comment'' @ [CHR 0x0A]
              @ ''issue.graphql''\<rparr>
   \<and> plugin failing_collaborators ''type Issue'' example_documents example_config
     = Inl (Error ''no operations'')
   \<and> plugin undefined_model_collaborators ''type Issue'' example_documents example_config
     = Inl TypeError"
proof -
  let ?out = "\<lparr>prepend =
              [Some ''/* eslint-disable @typescript-eslint/no-unused-vars */'',
               Some (''import { DocumentNode } from '' @ [CHR 0x27] @ ''graphql''
                       @ [CHR 0x27]),
               Some (''import { ResultOf } from '' @ [CHR 0x27]
                       @ ''@graphql-typed-document-node/core'' @ [CHR 0x27])],
            content =
              ''import * as D from '' @ [CHR 0x27] @ ''./_generated_documents''
                @ [CHR 0x27, CHR 0x0A]
              @ ''export * from '' @ [CHR 0x27] @ ''./_generated_documents''
                @ [CHR 0x27, CHR 0x0A, CHR 0x0A]
              @ ''export type LinearRequester = unknown'' @ [CHR 0x0A]
              @ ''Issue, Comment'' @ [CHR 0x0A]
              @ ''issue.graphql''\<rparr>"
  have ok: "plugin example_collaborators ''type Issue'' example_documents example_config
     = Inr ?out"
    using plugin_all_or_nothing
      [of example_collaborators "''type Issue''" example_documents example_config ?out
        "Error ''no operations''" "ModelArray []", THEN conjunct1]
    by (simp add: example_collaborators_def example_documents_def example_config_def
        sdkContext_def)
  have failed: "plugin failing_collaborators ''type Issue'' example_documents example_config
     = Inl (Error ''no operations'')"
    using plugin_all_or_nothing
      [of failing_collaborators "''type Issue''" example_documents example_config ?out
        "Error ''no operations''" "ModelArray []", THEN conjunct2, THEN conjunct1]
    by (simp add: failing_collaborators_def example_collaborators_def)
  have undefined_model:
    "plugin undefined_model_collaborators ''type Issue'' example_documents example_config
       = Inl TypeError"
    using plugin_all_or_nothing
      [of undefined_model_collaborators "''type Issue''" example_documents example_config
        ?out TypeError "ModelArray []", THEN conjunct2, THEN conjunct1]
    by (simp add: undefined_model_collaborators_def example_collaborators_def)
  show ?thesis using ok failed undefined_model by simp
qed

text \<open>
  Claim C2, as stated: the context that \<open>plugin\<close> builds contains the fragment
  registry populated from the input. It fails on the run below: the documents define
  the fragment \<open>IssueFragment\<close>, and the context holds no fragment.
\<close>

theorem plugin_context_registry_counterexample:
  "plugin_context example_collaborators ''type Issue'' example_config
     = Inr ([''Issue'', ''Comment''], \<lparr>collected = [''Issue'', ''Comment''], fragments = []\<rparr>)
   \<and> document_fragments example_documents = [(''IssueFragment'', ''{ id title }'')]
   \<and> fragments \<lparr>collected = [''Issue'', ''Comment''], fragments = []\<rparr>
       \<noteq> document_fragments example_documents"
  by (simp add: plugin_context_def example_collaborators_def document_fragments_def
      example_documents_def)

text \<open>
  Claim C2, amended. The context that \<open>plugin\<close> builds is the context of the context
  visitor with the list of fragments set to the empty list, for every schema,
  configuration and document list: the registry is not populated from the input.
  \<open>plugin\<close> does not change the context afterwards: on a run that succeeds, the model
  visitor and \<open>getSdkDefinitions\<close> receive this context, and the printers receive it
  extended with the models and the definitions, its list of fragments still empty.
\<close>

theorem plugin_context_fragments_empty:
  "(plugin_context D schema config = Inr (ast, context) \<longrightarrow>
      fragments context = []
    \<and> parse_printSchema D schema = Inr ast
    \<and> (\<exists>visited. ContextVisitor D schema config ast = Inr visited
          \<and> context = visited\<lparr>fragments := []\<rparr>))
   \<and> (plugin D schema documents config = Inr out \<longrightarrow>
        (\<exists>ast context ms defs printedModels printedOperations.
            plugin_context D schema config = Inr (ast, context)
          \<and> ModelVisitor D context ast = Inr ms
          \<and> getSdkDefinitions D context documents ms = Inr defs
          \<and> printSdkModels D (sdkContext context ms defs) = Inr printedModels
          \<and> printSdkClasses D (sdkContext context ms defs) = Inr printedOperations
          \<and> fragments (sdkContext context ms defs) = []
          \<and> collected (sdkContext context ms defs) = collected context))"
proof -
  have a: "plugin_context D schema config = Inr (ast, context) \<longrightarrow>
      fragments context = []
    \<and> parse_printSchema D schema = Inr ast
    \<and> (\<exists>visited. ContextVisitor D schema config ast = Inr visited
          \<and> context = visited\<lparr>fragments := []\<rparr>)"
    unfolding plugin_context_def by (auto split: sum.splits)
  have b: "plugin D schema documents config = Inr out \<longrightarrow>
        (\<exists>ast context ms defs printedModels printedOperations.
            plugin_context D schema config = Inr (ast, context)
          \<and> ModelVisitor D context ast = Inr ms
          \<and> getSdkDefinitions D context documents ms = Inr defs
          \<and> printSdkModels D (sdkContext context ms defs) = Inr printedModels
          \<and> printSdkClasses D (sdkContext context ms defs) = Inr printedOperations
          \<and> fragments (sdkContext context ms defs) = []
          \<and> collected (sdkContext context ms defs) = collected context)"
  proof
    assume "plugin D schema documents config = Inr out"
    then obtain ast visited ms defs printedModels printedOperations where
        "parse_printSchema D schema = Inr ast"
        "ContextVisitor D schema config ast = Inr visited"
        "ModelVisitor D (visited\<lparr>fragments := []\<rparr>) ast = Inr ms"
        "getSdkDefinitions D (visited\<lparr>fragments := []\<rparr>) documents ms = Inr defs"
        "printSdkModels D (sdkContext (visited\<lparr>fragments := []\<rparr>) ms defs)
           = Inr printedModels"
        "printSdkClasses D (sdkContext (visited\<lparr>fragments := []\<rparr>) ms defs)
           = Inr printedOperations"
      unfolding plugin_Inr_iff by blast
    then show "\<exists>ast context ms defs printedModels printedOperations.
            plugin_context D schema config = Inr (ast, context)
          \<and> ModelVisitor D context ast = Inr ms
          \<and> getSdkDefinitions D context documents ms = Inr defs
          \<and> printSdkModels D (sdkContext context ms defs) = Inr printedModels
          \<and> printSdkClasses D (sdkContext context ms defs) = Inr printedOperations
          \<and> fragments (sdkContext context ms defs) = []
          \<and> collected (sdkContext context ms defs) = collected context"
      by (intro exI [of _ ast] exI [of _ "visited\<lparr>fragments := []\<rparr>"] exI [of _ ms]
          exI [of _ defs] exI [of _ printedModels] exI [of _ printedOperations])
        (simp add: plugin_context_def sdkContext_def)
  qed
  show ?thesis using a b by blast
qed

theorem plugin_context_fragments_empty_witness:
  "plugin_context example_collaborators ''type Issue'' example_config
     = Inr ([''Issue'', ''Comment''], \<lparr>collected = [''Issue'', ''Comment''], fragments = []\<rparr>)
   \<and> fragments \<lparr>collected = [''Issue'', ''Comment''], fragments = [] :: (string \<times> string) list\<rparr>
       = []
   \<and> ContextVisitor example_collaborators ''type Issue'' example_config [''Issue'', ''Comment'']
       = Inr \<lparr>collected = [''Issue'', ''Comment''], fragments = []\<rparr>
   \<and> (\<exists>out. plugin example_collaborators ''type Issue'' example_documents example_config
         = Inr out)
   \<and> (\<exists>printedModels.
        printSdkModels example_collaborators
          (sdkContext \<lparr>collected = [''Issue'', ''Comment''], fragments = []\<rparr>
             (ModelArray [Some ''Issue'', Some ''Comment'']) [''issue.graphql''])
          = Inr printedModels)"
proof -
  have ctx: "plugin_context example_collaborators ''type Issue'' example_config
     = Inr ([''Issue'', ''Comment''], \<lparr>collected = [''Issue'', ''Comment''], fragments = []\<rparr>)"
    by (simp add: plugin_context_def example_collaborators_def)
  have run: "\<exists>out. plugin example_collaborators ''type Issue'' example_documents example_config
         = Inr out"
    by (simp add: plugin_def plugin_context_def example_collaborators_def
        example_config_def)
  then obtain out where out:
    "plugin example_collaborators ''type Issue'' example_documents example_config = Inr out"
    by blast
  note inst = plugin_context_fragments_empty
      [of example_collaborators "''type Issue''" example_config "[''Issue'', ''Comment'']"
        "\<lparr>collected = [''Issue'', ''Comment''], fragments = []\<rparr>" example_documents out]
  have "fragments \<lparr>collected = [''Issue'', ''Comment''],
          fragments = [] :: (string \<times> string) list\<rparr> = []"
    using inst [THEN conjunct1, THEN mp, OF ctx] by (rule conjunct1)
  moreover have "ContextVisitor example_collaborators ''type Issue'' example_config
       [''Issue'', ''Comment'']
       = Inr \<lparr>collected = [''Issue'', ''Comment''], fragments = []\<rparr>"
    by (simp add: example_collaborators_def)
  moreover have "\<exists>printedModels.
        printSdkModels example_collaborators
          (sdkContext \<lparr>collected = [''Issue'', ''Comment''], fragments = []\<rparr>
             (ModelArray [Some ''Issue'', Some ''Comment'']) [''issue.graphql''])
          = Inr printedModels"
    by (simp add: example_collaborators_def)
  ultimately show ?thesis using ctx run by blast
qed

lemma prepend_lines_distinct:
  "import_DocumentNode \<noteq> eslint_disable" "import_DocumentNode \<noteq> import_ResultOf"
  by (simp_all add: import_DocumentNode_def eslint_disable_def import_ResultOf_def)

text \<open>
  Claim C8. The requester contract has two variants, chosen by \<open>config.documentMode\<close>:
  the string-document variant for the string mode and the typed-document-node variant
  for every other mode, which differ in the type of the document. In the output of
  \<open>plugin\<close> the line that imports \<open>DocumentNode\<close> is in \<open>prepend\<close> exactly when the
  mode is not the string mode, that is exactly for the typed-document-node variant,
  and the eslint line and the import of \<open>ResultOf\<close> are there for every
  configuration. \<open>nonNullable\<close> is taken to accept exactly the values that are not
  \<open>undefined\<close>.
\<close>

theorem prepend_by_document_mode:
  assumes "\<forall>x. nonNullable D x = (x \<noteq> None)"
    and "plugin D schema documents config = Inr out"
  shows
    "prepend out =
       [Some eslint_disable]
       @ (if documentMode config \<noteq> Some DocumentMode_string
          then [Some import_DocumentNode] else [])
       @ [Some import_ResultOf]
     \<and> (Some import_DocumentNode \<in> set (prepend out)
          \<longleftrightarrow> documentMode config \<noteq> Some DocumentMode_string)
     \<and> Some eslint_disable \<in> set (prepend out)
     \<and> Some import_ResultOf \<in> set (prepend out)
     \<and> (RequesterContract config = StringDocument
          \<longleftrightarrow> documentMode config = Some DocumentMode_string)
     \<and> (RequesterContract config = TypedDocumentNode
          \<longleftrightarrow> documentMode config \<noteq> Some DocumentMode_string)
     \<and> (Some import_DocumentNode \<in> set (prepend out)
          \<longleftrightarrow> RequesterContract config = TypedDocumentNode)"
proof -
  from assms(2) obtain path requester printedModels printedOperations where
    out: "out = plugin_output D config path requester printedModels printedOperations"
    unfolding plugin_Inr_iff by blast
  have lines: "prepend out =
       [Some eslint_disable]
       @ (if documentMode config \<noteq> Some DocumentMode_string
          then [Some import_DocumentNode] else [])
       @ [Some import_ResultOf]"
    using assms(1) by (simp add: out plugin_output_def)
  have variant: "(RequesterContract config = StringDocument)
                   = (documentMode config = Some DocumentMode_string)"
       "(RequesterContract config = TypedDocumentNode)
                   = (documentMode config \<noteq> Some DocumentMode_string)"
    by (simp_all add: RequesterContract_def)
  show ?thesis
    unfolding variant using lines prepend_lines_distinct by simp
qed

theorem prepend_by_document_mode_witness:
  "prepend (plugin_output example_collaborators example_config ''./_generated_documents''
              [''export type LinearRequester = unknown''] ''Issue, Comment'' ''issue.graphql'')
     = [Some eslint_disable, Some import_DocumentNode, Some import_ResultOf]
   \<and> prepend (plugin_output example_collaborators
                (example_config\<lparr>documentMode := Some DocumentMode_string\<rparr>)
                ''./_generated_documents''
                [''export type LinearRequester = unknown''] ''Issue, Comment''
                ''issue.graphql'')
     = [Some eslint_disable, Some import_ResultOf]
   \<and> RequesterContract example_config = TypedDocumentNode
   \<and> RequesterContract (example_config\<lparr>documentMode := Some DocumentMode_string\<rparr>)
       = StringDocument"
proof -
  have nn: "\<forall>x. nonNullable example_collaborators x = (x \<noteq> None)"
    by (simp add: example_collaborators_def)
  have run: "plugin example_collaborators ''type Issue'' example_documents
       (example_config\<lparr>documentMode := mode\<rparr>)
     = Inr (plugin_output example_collaborators (example_config\<lparr>documentMode := mode\<rparr>)
              ''./_generated_documents''
              [''export type LinearRequester = unknown''] ''Issue, Comment'' ''issue.graphql'')"
    for mode
    by (simp add: plugin_def plugin_context_def example_collaborators_def
        example_documents_def example_config_def sdkContext_def)
  have same: "example_config\<lparr>documentMode := Some DocumentMode_documentNode\<rparr>
                = example_config"
    by (simp add: example_config_def)
  show ?thesis
    using prepend_by_document_mode [OF nn run [of "Some DocumentMode_documentNode"]]
      prepend_by_document_mode [OF nn run [of "Some DocumentMode_string"]]
    unfolding same
    by (simp add: example_config_def)
qed

section \<open>Properties of chain resolution\<close>

lemma candidate_iff:
  "candidate operation M =
     (\<forall>v \<in> set (o_variables operation). v_required v \<and> v_identifying v \<longrightarrow>
        (\<exists>f \<in> set (m_fields M). f_name f = v_name v \<and> f_type f = v_type v))"
  by (simp add: candidate_def appears_in_def list_all_iff list_ex_iff)

lemma most_specific_Some:
  "most_specific operation ms = Some M \<Longrightarrow> M \<in> set ms \<and> candidate operation M"
proof (induction ms arbitrary: M)
  case Nil
  then show ?case by simp
next
  case (Cons N ms)
  show ?case
  proof (cases "candidate operation N")
    case False
    with Cons show ?thesis by simp
  next
    case True
    show ?thesis
    proof (cases "most_specific operation ms")
      case None
      with True Cons.prems show ?thesis by simp
    next
      case (Some K)
      with Cons.IH have "K \<in> set ms \<and> candidate operation K" by simp
      with True Some Cons.prems show ?thesis by (auto split: if_splits)
    qed
  qed
qed

lemma most_specific_None:
  "\<forall>M \<in> set ms. \<not> candidate operation M \<Longrightarrow> most_specific operation ms = None"
  by (induction ms) simp_all

text \<open>
  Claim C1. An operation is attached as a child of a model \<open>M\<close> only if \<open>M\<close> is one of
  the extracted models and every required variable of the operation that is not
  independently suppliable appears, with the same name and type, among the selected
  fields of \<open>M\<close>. In particular an operation with such a variable named \<open>id\<close> whose
  type differs from the type of the field \<open>id\<close> of every model (\<open>ID!\<close> against
  \<open>String!\<close>) has no parent: it is a root and a child of no model.
\<close>

theorem chained_only_if_variables_appear:
  "(operation \<in> set (chain_children ms documents M) \<longrightarrow>
      M \<in> set ms
    \<and> (\<forall>v \<in> set (o_variables operation). v_required v \<and> v_identifying v \<longrightarrow>
         (\<exists>f \<in> set (m_fields M). f_name f = v_name v \<and> f_type f = v_type v)))
   \<and> (operation \<in> set documents \<and> v \<in> set (o_variables operation)
      \<and> v_name v = ''id'' \<and> v_required v \<and> v_identifying v
      \<and> (\<forall>M \<in> set ms. \<forall>f \<in> set (m_fields M). f_name f = ''id'' \<longrightarrow> f_type f \<noteq> v_type v)
      \<longrightarrow> chain_parent ms operation = None
        \<and> operation \<in> set (chain_roots ms documents)
        \<and> (\<forall>M. operation \<notin> set (chain_children ms documents M)))"
proof -
  have attached: "operation \<in> set (chain_children ms documents M) \<longrightarrow>
      M \<in> set ms
    \<and> (\<forall>v \<in> set (o_variables operation). v_required v \<and> v_identifying v \<longrightarrow>
         (\<exists>f \<in> set (m_fields M). f_name f = v_name v \<and> f_type f = v_type v))"
  proof
    assume "operation \<in> set (chain_children ms documents M)"
    then have "most_specific operation ms = Some M"
      by (simp add: chain_children_def chain_parent_def)
    then have "M \<in> set ms \<and> candidate operation M"
      by (rule most_specific_Some)
    then show "M \<in> set ms
      \<and> (\<forall>v \<in> set (o_variables operation). v_required v \<and> v_identifying v \<longrightarrow>
           (\<exists>f \<in> set (m_fields M). f_name f = v_name v \<and> f_type f = v_type v))"
      by (simp add: candidate_iff)
  qed
  have root: "operation \<in> set documents \<and> v \<in> set (o_variables operation)
      \<and> v_name v = ''id'' \<and> v_required v \<and> v_identifying v
      \<and> (\<forall>M \<in> set ms. \<forall>f \<in> set (m_fields M). f_name f = ''id'' \<longrightarrow> f_type f \<noteq> v_type v)
      \<longrightarrow> chain_parent ms operation = None
        \<and> operation \<in> set (chain_roots ms documents)
        \<and> (\<forall>M. operation \<notin> set (chain_children ms documents M))"
  proof
    assume h: "operation \<in> set documents \<and> v \<in> set (o_variables operation)
      \<and> v_name v = ''id'' \<and> v_required v \<and> v_identifying v
      \<and> (\<forall>M \<in> set ms. \<forall>f \<in> set (m_fields M). f_name f = ''id'' \<longrightarrow> f_type f \<noteq> v_type v)"
    have "\<not> candidate operation M" if "M \<in> set ms" for M
    proof
      assume "candidate operation M"
      with h obtain f where "f \<in> set (m_fields M)" "f_name f = v_name v" "f_type f = v_type v"
        unfolding candidate_iff by blast
      with h that show False by auto
    qed
    then have none: "most_specific operation ms = None"
      by (intro most_specific_None) blast
    with h show "chain_parent ms operation = None
        \<and> operation \<in> set (chain_roots ms documents)
        \<and> (\<forall>M. operation \<notin> set (chain_children ms documents M))"
      by (simp add: chain_parent_def chain_roots_def chain_children_def)
  qed
  show ?thesis using attached root by blast
qed

theorem chained_only_if_variables_appear_witness:
  "op_issueComments
     \<in> set (chain_children [model_Issue, model_Comment] [op_issueComments, op_byExternalId]
              model_Issue)
   \<and> (\<exists>f \<in> set (m_fields model_Issue). f_name f = ''id'' \<and> f_type f = ''ID!'')
   \<and> chain_parent [model_Issue, model_Comment] op_byExternalId = None
   \<and> op_byExternalId
       \<in> set (chain_roots [model_Issue, model_Comment] [op_issueComments, op_byExternalId])"
proof -
  let ?ms = "[model_Issue, model_Comment]"
  let ?docs = "[op_issueComments, op_byExternalId]"
  have child: "op_issueComments \<in> set (chain_children ?ms ?docs model_Issue)"
    by (simp add: chain_children_def chain_parent_def candidate_def appears_in_def
        matching_def op_issueComments_def model_Issue_def model_Comment_def var_id_def)
  have "\<forall>v \<in> set (o_variables op_issueComments). v_required v \<and> v_identifying v \<longrightarrow>
         (\<exists>f \<in> set (m_fields model_Issue). f_name f = v_name v \<and> f_type f = v_type v)"
    using chained_only_if_variables_appear
      [of op_issueComments ?ms ?docs model_Issue "var_id ''ID!''", THEN conjunct1, THEN mp,
        OF child]
    by (rule conjunct2)
  then have field: "\<exists>f \<in> set (m_fields model_Issue). f_name f = ''id'' \<and> f_type f = ''ID!''"
    by (simp add: op_issueComments_def var_id_def)
  have hyp: "op_byExternalId \<in> set ?docs
      \<and> var_id ''String!'' \<in> set (o_variables op_byExternalId)
      \<and> v_name (var_id ''String!'') = ''id'' \<and> v_required (var_id ''String!'')
      \<and> v_identifying (var_id ''String!'')
      \<and> (\<forall>M \<in> set ?ms. \<forall>f \<in> set (m_fields M).
            f_name f = ''id'' \<longrightarrow> f_type f \<noteq> v_type (var_id ''String!''))"
    by (simp add: op_byExternalId_def var_id_def model_Issue_def model_Comment_def)
  have "chain_parent ?ms op_byExternalId = None
        \<and> op_byExternalId \<in> set (chain_roots ?ms ?docs)
        \<and> (\<forall>M. op_byExternalId \<notin> set (chain_children ?ms ?docs M))"
    using chained_only_if_variables_appear
      [of op_byExternalId ?ms ?docs model_Issue "var_id ''String!''", THEN conjunct2, THEN mp,
        OF hyp] .
  with child field show ?thesis by blast
qed

lemma elide_idempotent:
  "elide ancestors (elide ancestors t) = elide ancestors t"
proof (induction t arbitrary: ancestors)
  case (SdkDefinition name path arguments model children)
  have "map (elide (ancestors @ [model])) (map (elide (ancestors @ [model])) children)
        = map (elide (ancestors @ [model])) children"
    using SdkDefinition.IH by simp
  then show ?case by simp
qed

lemma elide_arguments:
  "d_arguments (elide ancestors t) = filter (\<lambda>v. \<not> inherited ancestors v) (d_arguments t)"
  by (cases t) simp

text \<open>
  Claim C9. Argument elision is idempotent: applied to a forest that it has already
  resolved it returns the same forest, and so the same argument list at every node,
  whatever the models of the ancestors above the node. The list it leaves at a node
  is the node's arguments without those inherited from the ancestor chain.
\<close>

theorem argument_elision_idempotent:
  "argument_elision (argument_elision forest) = argument_elision forest
   \<and> elide ancestors (elide ancestors t) = elide ancestors t
   \<and> d_arguments (elide ancestors t)
       = filter (\<lambda>v. \<not> inherited ancestors v) (d_arguments t)"
  by (simp add: argument_elision_def elide_idempotent elide_arguments)

theorem argument_elision_idempotent_witness:
  "argument_elision (argument_elision [tree_issue]) = argument_elision [tree_issue]
   \<and> argument_elision [tree_issue] =
       [SdkDefinition ''issue'' [] [var_id ''ID!''] model_Issue
          [SdkDefinition ''issueComments'' [''Issue'']
             [\<lparr>v_name = ''first'', v_type = ''Int'', v_required = False,
               v_identifying = False\<rparr>]
             model_Comment []]]"
proof -
  have "argument_elision [tree_issue] =
       [SdkDefinition ''issue'' [] [var_id ''ID!''] model_Issue
          [SdkDefinition ''issueComments'' [''Issue'']
             [\<lparr>v_name = ''first'', v_type = ''Int'', v_required = False,
               v_identifying = False\<rparr>]
             model_Comment []]]"
    by (simp add: argument_elision_def tree_issue_def inherited_def appears_in_def
        var_id_def model_Issue_def)
  then show ?thesis
    using argument_elision_idempotent [of "[tree_issue]" "[]" tree_issue, THEN conjunct1]
    by simp
qed

end

